theory Spec2Isabelle
  imports Complex_Main
begin

section \<open>JavaScript numbers\<close>

text \<open>
  The sources are TypeScript; every numeric value is a JavaScript number. The model keeps
  the three special values of IEEE arithmetic, because the code produces and tests them
  (\<^verbatim>\<open>0/0\<close>, \<^verbatim>\<open>x/0\<close>, \<^verbatim>\<open>Number.isFinite\<close>, comparisons with
  \<^verbatim>\<open>NaN\<close>), and takes every finite value as an exact real: rounding, overflow and
  underflow of finite values, the rounding of a \<^verbatim>\<open>Float32Array\<close> store and the sign
  of zero are not modelled.
\<close>

datatype jsnum = NaN | PInf | NInf | Fin real

fun js_isFinite :: "jsnum \<Rightarrow> bool" where
  "js_isFinite (Fin r) = True"
| "js_isFinite v = False"

fun js_neg :: "jsnum \<Rightarrow> jsnum" where
  "js_neg NaN = NaN"
| "js_neg PInf = NInf"
| "js_neg NInf = PInf"
| "js_neg (Fin r) = Fin (- r)"

fun js_add :: "jsnum \<Rightarrow> jsnum \<Rightarrow> jsnum" where
  "js_add NaN y = NaN"
| "js_add x NaN = NaN"
| "js_add PInf NInf = NaN"
| "js_add NInf PInf = NaN"
| "js_add PInf y = PInf"
| "js_add NInf y = NInf"
| "js_add x PInf = PInf"
| "js_add x NInf = NInf"
| "js_add (Fin a) (Fin b) = Fin (a + b)"

definition js_sub :: "jsnum \<Rightarrow> jsnum \<Rightarrow> jsnum" where
  "js_sub x y = js_add x (js_neg y)"

text \<open>The sign of a value that is not \<^verbatim>\<open>NaN\<close>: \<open>-1\<close>, \<open>0\<close> or \<open>1\<close>.\<close>

fun js_sign :: "jsnum \<Rightarrow> real" where
  "js_sign NaN = 0"
| "js_sign PInf = 1"
| "js_sign NInf = - 1"
| "js_sign (Fin r) = sgn r"

definition inf_of_sign :: "real \<Rightarrow> jsnum" where
  "inf_of_sign s = (if s < 0 then NInf else PInf)"

fun js_mul :: "jsnum \<Rightarrow> jsnum \<Rightarrow> jsnum" where
  "js_mul NaN y = NaN"
| "js_mul x NaN = NaN"
| "js_mul (Fin a) (Fin b) = Fin (a * b)"
| "js_mul x y =
     (if js_sign x = 0 \<or> js_sign y = 0 then NaN else inf_of_sign (js_sign x * js_sign y))"

text \<open>
  Division: \<^verbatim>\<open>0/0\<close> and \<^verbatim>\<open>Infinity/Infinity\<close> are \<^verbatim>\<open>NaN\<close>; a nonzero
  value over zero is an infinity of the dividend's sign (the zero counts as \<^verbatim>\<open>+0\<close>);
  a finite value over an infinity is zero.
\<close>

fun js_div :: "jsnum \<Rightarrow> jsnum \<Rightarrow> jsnum" where
  "js_div NaN y = NaN"
| "js_div x NaN = NaN"
| "js_div (Fin a) (Fin b) =
     (if b = 0 then (if a = 0 then NaN else inf_of_sign a) else Fin (a / b))"
| "js_div (Fin a) y = Fin 0"
| "js_div x (Fin b) = inf_of_sign (js_sign x * (if b < 0 then - 1 else 1))"
| "js_div x y = NaN"

fun js_lt :: "jsnum \<Rightarrow> jsnum \<Rightarrow> bool" where
  "js_lt NaN y = False"
| "js_lt x NaN = False"
| "js_lt x NInf = False"
| "js_lt PInf y = False"
| "js_lt NInf y = True"
| "js_lt x PInf = True"
| "js_lt (Fin a) (Fin b) = (a < b)"

fun js_le :: "jsnum \<Rightarrow> jsnum \<Rightarrow> bool" where
  "js_le NaN y = False"
| "js_le x NaN = False"
| "js_le NInf y = True"
| "js_le x PInf = True"
| "js_le x NInf = False"
| "js_le PInf y = False"
| "js_le (Fin a) (Fin b) = (a \<le> b)"

definition js_gt :: "jsnum \<Rightarrow> jsnum \<Rightarrow> bool" where
  "js_gt x y = js_lt y x"

definition js_ge :: "jsnum \<Rightarrow> jsnum \<Rightarrow> bool" where
  "js_ge x y = js_le y x"

text \<open>\<^verbatim>\<open>x !== 0\<close> on numbers: false only for zero, true for \<^verbatim>\<open>NaN\<close>.\<close>

fun js_nonzero :: "jsnum \<Rightarrow> bool" where
  "js_nonzero (Fin r) = (r \<noteq> 0)"
| "js_nonzero v = True"

fun js_floor :: "jsnum \<Rightarrow> jsnum" where
  "js_floor (Fin r) = Fin (of_int \<lfloor>r\<rfloor>)"
| "js_floor v = v"

text \<open>\<^verbatim>\<open>Math.round\<close> rounds to the nearest integer, a half towards \<open>+\<infinity>\<close>.\<close>

fun js_round :: "jsnum \<Rightarrow> jsnum" where
  "js_round (Fin r) = Fin (of_int \<lfloor>r + 1 / 2\<rfloor>)"
| "js_round v = v"

fun js_abs :: "jsnum \<Rightarrow> jsnum" where
  "js_abs NaN = NaN"
| "js_abs (Fin r) = Fin \<bar>r\<bar>"
| "js_abs v = PInf"

fun js_log2 :: "jsnum \<Rightarrow> jsnum" where
  "js_log2 NaN = NaN"
| "js_log2 PInf = PInf"
| "js_log2 NInf = NaN"
| "js_log2 (Fin r) = (if r < 0 then NaN else if r = 0 then NInf else Fin (log 2 r))"


section \<open>Typed arrays\<close>

datatype error = RangeError | Hang

text \<open>
  \<^verbatim>\<open>new Float32Array(len)\<close>: the length goes through \<^verbatim>\<open>ToIndex\<close>, which maps
  \<^verbatim>\<open>NaN\<close> to \<open>0\<close>, truncates towards zero, and throws \<^verbatim>\<open>RangeError\<close> for a
  negative or infinite length. The array is zero-filled. Memory is unbounded here.
\<close>

definition new_Float32Array :: "jsnum \<Rightarrow> error + jsnum list" where
  "new_Float32Array len =
     (case len of
        NaN \<Rightarrow> Inr []
      | PInf \<Rightarrow> Inl RangeError
      | NInf \<Rightarrow> Inl RangeError
      | Fin r \<Rightarrow>
          (let n = (if 0 \<le> r then \<lfloor>r\<rfloor> else \<lceil>r\<rceil>)
           in if n < 0 then Inl RangeError else Inr (replicate (nat n) (Fin 0))))"

text \<open>
  Reading a typed array outside its bounds gives \<^verbatim>\<open>undefined\<close>, which every use in
  these sources turns into \<^verbatim>\<open>NaN\<close> (arithmetic and comparison); writing outside the
  bounds does nothing.
\<close>

definition ta_get :: "jsnum list \<Rightarrow> int \<Rightarrow> jsnum" where
  "ta_get xs i = (if 0 \<le> i \<and> i < int (length xs) then xs ! nat i else NaN)"

definition ta_set :: "jsnum list \<Rightarrow> int \<Rightarrow> jsnum \<Rightarrow> jsnum list" where
  "ta_set xs i v = (if 0 \<le> i \<and> i < int (length xs) then xs[nat i := v] else xs)"

section \<open>yin.ts: the single-frame estimator\<close>

text \<open>
  \<^verbatim>\<open>YinConfig\<close>: \<^verbatim>\<open>threshold\<close>, \<^verbatim>\<open>probabilityThreshold\<close> and
  \<^verbatim>\<open>sampleRate\<close> are required numbers (the \<^verbatim>\<open>??\<close> defaults that \<^verbatim>\<open>yin\<close>
  writes for the first two never apply to a value of this type); \<^verbatim>\<open>minFreq\<close> and
  \<^verbatim>\<open>maxFreq\<close> are optional. The numbers of a configuration are finite.
\<close>

record YinConfig =
  threshold :: real
  probabilityThreshold :: real
  sampleRate :: real
  minFreq :: "real option"
  maxFreq :: "real option"

record YinResult =
  freqHz :: "jsnum option"
  probability :: jsnum

text \<open>\<^verbatim>\<open>cfg.maxFreq ?? 1200\<close> and \<^verbatim>\<open>cfg.minFreq ?? 50\<close>.\<close>

definition maxFreq_or :: "YinConfig \<Rightarrow> real" where
  "maxFreq_or cfg = (case maxFreq cfg of None \<Rightarrow> 1200 | Some f \<Rightarrow> f)"

definition minFreq_or :: "YinConfig \<Rightarrow> real" where
  "minFreq_or cfg = (case minFreq cfg of None \<Rightarrow> 50 | Some f \<Rightarrow> f)"

definition minLag_of :: "YinConfig \<Rightarrow> jsnum" where
  "minLag_of cfg = js_floor (js_div (Fin (sampleRate cfg)) (Fin (maxFreq_or cfg)))"

definition maxLag_of :: "YinConfig \<Rightarrow> jsnum" where
  "maxLag_of cfg = js_floor (js_div (Fin (sampleRate cfg)) (Fin (minFreq_or cfg)))"

text \<open>Step 3, inner loop: \<^verbatim>\<open>for (let i = 0; i + tau < N; i++) { ... sum += d * d; }\<close>.\<close>

function diff_sum :: "jsnum list \<Rightarrow> int \<Rightarrow> int \<Rightarrow> int \<Rightarrow> jsnum \<Rightarrow> jsnum" where
  "diff_sum frame N tau i sumv =
     (if i + tau < N
      then (let d = js_sub (ta_get frame i) (ta_get frame (i + tau))
            in diff_sum frame N tau (i + 1) (js_add sumv (js_mul d d)))
      else sumv)"
  by pat_completeness auto
termination
  by (relation "measure (\<lambda>(frame, N, tau, i, sumv). nat (N - tau - i))") auto

declare diff_sum.simps [simp del]

text \<open>Step 3, outer loop: \<^verbatim>\<open>for (let tau = minLag; tau <= maxLag; tau++)\<close>.\<close>

function diff_loop :: "jsnum list \<Rightarrow> int \<Rightarrow> int \<Rightarrow> int \<Rightarrow> jsnum list \<Rightarrow> jsnum list" where
  "diff_loop frame N tau maxLag diff =
     (if tau \<le> maxLag
      then diff_loop frame N (tau + 1) maxLag
             (ta_set diff tau (diff_sum frame N tau 0 (Fin 0)))
      else diff)"
  by pat_completeness auto
termination
  by (relation "measure (\<lambda>(frame, N, tau, maxLag, diff). nat (maxLag + 1 - tau))") auto

declare diff_loop.simps [simp del]

text \<open>
  Step 4: \<^verbatim>\<open>for (let tau = 1; tau <= maxLag; tau++) { runningSum += diff[tau];
  cmnd[tau] = diff[tau] * tau / runningSum; }\<close>. The state is the running sum and the
  array.
\<close>

function cmnd_loop :: "jsnum list \<Rightarrow> int \<Rightarrow> int \<Rightarrow> jsnum \<times> jsnum list \<Rightarrow> jsnum \<times> jsnum list" where
  "cmnd_loop diff tau maxLag st =
     (if tau \<le> maxLag
      then (let runningSum = js_add (fst st) (ta_get diff tau)
            in cmnd_loop diff (tau + 1) maxLag
                 (runningSum,
                  ta_set (snd st) tau
                    (js_div (js_mul (ta_get diff tau) (Fin (of_int tau))) runningSum)))
      else st)"
  by pat_completeness auto
termination
  by (relation "measure (\<lambda>(diff, tau, maxLag, st). nat (maxLag + 1 - tau))") auto

declare cmnd_loop.simps [simp del]

text \<open>
  Step 5: \<^verbatim>\<open>let tau = -1; for (let t = minLag; t <= maxLag; t++) { if (cmnd[t] <
  threshold) { tau = t; break; } }\<close>.
\<close>

function search_loop :: "jsnum list \<Rightarrow> real \<Rightarrow> int \<Rightarrow> int \<Rightarrow> int" where
  "search_loop cmnd th t maxLag =
     (if t \<le> maxLag
      then (if js_lt (ta_get cmnd t) (Fin th) then t else search_loop cmnd th (t + 1) maxLag)
      else - 1)"
  by pat_completeness auto
termination
  by (relation "measure (\<lambda>(cmnd, th, t, maxLag). nat (maxLag + 1 - t))") auto

declare search_loop.simps [simp del]

text \<open>The arrays of steps 2 to 4 for finite lags.\<close>

definition yin_N :: "jsnum list \<Rightarrow> int \<Rightarrow> int" where
  "yin_N frame maxLag = min (int (length frame)) (maxLag * 2)"

definition yin_diff :: "jsnum list \<Rightarrow> int \<Rightarrow> int \<Rightarrow> jsnum list" where
  "yin_diff frame minLag maxLag =
     diff_loop frame (yin_N frame maxLag) minLag maxLag (replicate (nat (maxLag + 1)) (Fin 0))"

definition yin_cmnd_state :: "jsnum list \<Rightarrow> int \<Rightarrow> int \<Rightarrow> int \<Rightarrow> jsnum \<times> jsnum list" where
  "yin_cmnd_state frame minLag maxLag k =
     cmnd_loop (yin_diff frame minLag maxLag) 1 k
       (Fin 0, ta_set (replicate (nat (maxLag + 1)) (Fin 0)) 0 (Fin 1))"

definition yin_cmnd :: "jsnum list \<Rightarrow> int \<Rightarrow> int \<Rightarrow> jsnum list" where
  "yin_cmnd frame minLag maxLag = snd (yin_cmnd_state frame minLag maxLag maxLag)"

text \<open>Step 7: the parabolic refinement of the lag.\<close>

definition betterTau :: "jsnum list \<Rightarrow> int \<Rightarrow> int \<Rightarrow> int \<Rightarrow> jsnum" where
  "betterTau cmnd minLag maxLag tau =
     (if tau + 1 \<le> maxLag \<and> tau - 1 \<ge> minLag
      then (let s0 = ta_get cmnd (tau - 1);
                s1 = ta_get cmnd tau;
                s2 = ta_get cmnd (tau + 1);
                denom = js_sub (js_sub (js_mul (Fin 2) s1) s2) s0
            in if js_nonzero denom
               then js_add (Fin (of_int tau)) (js_div (js_sub s2 s0) (js_mul (Fin 2) denom))
               else Fin (of_int tau))
      else Fin (of_int tau))"

text \<open>Steps 5 to 11 on the finished \<^verbatim>\<open>cmnd\<close> array.\<close>

definition yin_decide :: "YinConfig \<Rightarrow> jsnum list \<Rightarrow> int \<Rightarrow> int \<Rightarrow> YinResult" where
  "yin_decide cfg cmnd minLag maxLag =
     (let tau = search_loop cmnd (threshold cfg) minLag maxLag
      in if tau = - 1 then \<lparr>freqHz = None, probability = Fin 0\<rparr>
         else (let freq = js_div (Fin (sampleRate cfg)) (betterTau cmnd minLag maxLag tau);
                   probability = js_sub (Fin 1) (ta_get cmnd tau)
               in if js_lt probability (Fin (probabilityThreshold cfg))
                  then \<lparr>freqHz = None, probability = probability\<rparr>
                  else \<lparr>freqHz = Some freq, probability = probability\<rparr>))"

text \<open>
  \<^verbatim>\<open>yin(frame, cfg)\<close>. The lags are \<^verbatim>\<open>Math.floor\<close> of a quotient and so
  integers, infinities or \<^verbatim>\<open>NaN\<close>. The allocation of \<^verbatim>\<open>diff\<close> throws on a
  negative or infinite \<^verbatim>\<open>maxLag + 1\<close>. With both lags finite the loops run on
  integers. Otherwise: a \<^verbatim>\<open>NaN\<close> bound or \<^verbatim>\<open>minLag = Infinity\<close> makes the
  guards of the loops of steps 3 and 5 false at once, so \<^verbatim>\<open>tau\<close> stays \<open>-1\<close> and
  the unvoiced result is returned; with \<^verbatim>\<open>minLag = -Infinity\<close> and a finite
  \<^verbatim>\<open>maxLag\<close> the guard \<^verbatim>\<open>i + tau < N\<close> of the inner loop stays true for ever
  and the call never returns (\<open>Hang\<close>). When the allocation succeeds with a finite
  \<^verbatim>\<open>maxLag\<close>, \<^verbatim>\<open>diff\<close> and \<^verbatim>\<open>cmnd\<close> are the \<open>maxLag + 1\<close> zeros that
  \<open>yin_diff\<close> and \<open>yin_cmnd_state\<close> start from.
\<close>

definition yin :: "jsnum list \<Rightarrow> YinConfig \<Rightarrow> error + YinResult" where
  "yin frame cfg =
     (case new_Float32Array (js_add (maxLag_of cfg) (Fin 1)) of
        Inl e \<Rightarrow> Inl e
      | Inr zeros \<Rightarrow>
          (case (minLag_of cfg, maxLag_of cfg) of
             (Fin m, Fin M) \<Rightarrow>
               Inr (yin_decide cfg (yin_cmnd frame \<lfloor>m\<rfloor> \<lfloor>M\<rfloor>) \<lfloor>m\<rfloor> \<lfloor>M\<rfloor>)
           | (NInf, Fin M) \<Rightarrow> Inl Hang
           | _ \<Rightarrow> Inr \<lparr>freqHz = None, probability = Fin 0\<rparr>))"

section \<open>music.ts: pitch conversion\<close>




section \<open>smoothing.ts: median filter and exponential moving average\<close>

text \<open>The finite entries of a list, as reals.\<close>

fun finite_values :: "jsnum list \<Rightarrow> real list" where
  "finite_values [] = []"
| "finite_values (Fin r # xs) = r # finite_values xs"
| "finite_values (v # xs) = finite_values xs"

text \<open>
  The body of the loop of \<^verbatim>\<open>medianFilter\<close> at index \<open>i\<close>: the window clipped to the
  array, its finite entries sorted ascending, the entry at \<^verbatim>\<open>Math.floor(length / 2)\<close>;
  \<^verbatim>\<open>NaN\<close> when no entry is finite.
\<close>

definition median_at :: "jsnum list \<Rightarrow> nat \<Rightarrow> nat \<Rightarrow> jsnum" where
  "median_at arr hw i =
     (let start = nat (max 0 (int i - int hw));
          end' = min (length arr) (i + hw + 1);
          slice = finite_values (take (end' - start) (drop start arr))
      in if length slice = 0 then NaN
         else Fin (sort slice ! (length slice div 2)))"

text \<open>\<^verbatim>\<open>medianFilter(arr, win)\<close>; the window width is a natural number.\<close>

definition medianFilter :: "jsnum list \<Rightarrow> nat \<Rightarrow> jsnum list" where
  "medianFilter arr win =
     (let w = (if win mod 2 = 1 then win else win + 1);
          hw = w div 2
      in map (median_at arr hw) [0 ..< length arr])"

text \<open>\<^verbatim>\<open>ema(prev, next, alpha)\<close>; \<open>None\<close> is \<^verbatim>\<open>null\<close>.\<close>

definition ema :: "jsnum option \<Rightarrow> jsnum \<Rightarrow> jsnum \<Rightarrow> jsnum" where
  "ema prev nxt alpha =
     (case prev of
        None \<Rightarrow> nxt
      | Some p \<Rightarrow>
          if \<not> js_isFinite p then nxt
          else js_add (js_mul p (js_sub (Fin 1) alpha)) (js_mul nxt alpha))"

section \<open>FileMelodyExtractor.tsx and Generator.tsx: batch segmentation\<close>

text \<open>
  A \<^verbatim>\<open>Note\<close> of PianoRoll.tsx. Its \<^verbatim>\<open>id\<close> comes from
  \<^verbatim>\<open>crypto.randomUUID()\<close>, modelled by a supply \<open>uuid\<close>: the \<open>k\<close>-th call
  returns \<open>uuid k\<close>. Both segmentation loops call it once per pushed note and nowhere
  else, so the call that builds a note is call number \<open>length notes\<close>.
\<close>

record Note =
  note_id :: string
  start :: jsnum
  duration :: jsnum
  midi :: jsnum

definition FRAME_SIZE :: nat where
  "FRAME_SIZE = 2048"

definition HOP_SIZE :: nat where
  "HOP_SIZE = 512"

text \<open>The configuration literal passed to \<^verbatim>\<open>yin\<close> by both components.\<close>

definition extractor_cfg :: "real \<Rightarrow> YinConfig" where
  "extractor_cfg sr =
     \<lparr>threshold = 12 / 100, probabilityThreshold = 1 / 10, sampleRate = sr,
      minFreq = Some 50, maxFreq = Some 1200\<rparr>"

text \<open>
  Step 4 of \<^verbatim>\<open>handleFile\<close>: \<^verbatim>\<open>for (let i = 0; i + FRAME_SIZE < ch0.length;
  i += HOP_SIZE)\<close>, with \<^verbatim>\<open>ch0.subarray(i, i + FRAME_SIZE)\<close> as the frame. An
  exception of \<^verbatim>\<open>yin\<close> leaves the function.
\<close>

function handleFile_f0 ::
  "jsnum list \<Rightarrow> real \<Rightarrow> nat \<Rightarrow> jsnum option list \<Rightarrow> error + jsnum option list" where
  "handleFile_f0 ch0 sr i f0 =
     (if i + FRAME_SIZE < length ch0
      then (case yin (take FRAME_SIZE (drop i ch0)) (extractor_cfg sr) of
              Inl e \<Rightarrow> Inl e
            | Inr res \<Rightarrow> handleFile_f0 ch0 sr (i + HOP_SIZE) (f0 @ [freqHz res]))
      else Inr f0)"
  by pat_completeness auto
termination
  by (relation "measure (\<lambda>(ch0, sr, i, f0). length ch0 - i)") (auto simp: HOP_SIZE_def)

declare handleFile_f0.simps [simp del]

text \<open>\<^verbatim>\<open>v ?? NaN\<close>.\<close>

definition or_NaN :: "jsnum option \<Rightarrow> jsnum" where
  "or_NaN v = (case v of None \<Rightarrow> NaN | Some x \<Rightarrow> x)"

text \<open>
  The local \<^verbatim>\<open>hzToMidiNumber\<close> of \<^verbatim>\<open>handleFile\<close>. Its argument is an entry of
  the \<^verbatim>\<open>number[]\<close> returned by \<^verbatim>\<open>medianFilter\<close>, never \<^verbatim>\<open>null\<close>.
\<close>

definition hzToMidiNumber :: "jsnum \<Rightarrow> jsnum option" where
  "hzToMidiNumber hz =
     (if \<not> js_isFinite hz then None
      else Some (js_add (Fin 69) (js_mul (Fin 12) (js_log2 (js_div hz (Fin 440))))))"

text \<open>The mutable variables of the segmentation loop.\<close>

record seg_state =
  outNotes :: "Note list"
  curStart :: jsnum
  curMidi :: "jsnum option"

text \<open>
  \<^verbatim>\<open>if (dur >= 0.08) notes.push({ id: crypto.randomUUID(), start: curStart,
  duration: dur, midi: curMidi })\<close>, which occurs three times in each component.
\<close>

definition push_note :: "(nat \<Rightarrow> string) \<Rightarrow> jsnum \<Rightarrow> jsnum \<Rightarrow> jsnum \<Rightarrow> Note list \<Rightarrow> Note list" where
  "push_note uuid cs dur cm ns =
     (if js_ge dur (Fin (8 / 100))
      then ns @ [\<lparr>note_id = uuid (length ns), start = cs, duration = dur, midi = cm\<rparr>]
      else ns)"

text \<open>The body of the loop of step 6 of \<^verbatim>\<open>handleFile\<close> at index \<open>i\<close>.\<close>

definition handleFile_step ::
  "(nat \<Rightarrow> string) \<Rightarrow> jsnum \<Rightarrow> nat \<Rightarrow> jsnum \<Rightarrow> seg_state \<Rightarrow> seg_state" where
  "handleFile_step uuid frameDur i hz s =
     (let m = hzToMidiNumber hz;
          q = (case m of None \<Rightarrow> None | Some mv \<Rightarrow> Some (js_round mv))
      in case q of
           None \<Rightarrow>
             (case curMidi s of
                Some cm \<Rightarrow>
                  (let dur = js_sub (js_mul (Fin (real i)) frameDur) (curStart s)
                   in s\<lparr>outNotes := push_note uuid (curStart s) dur cm (outNotes s), curMidi := None\<rparr>)
              | None \<Rightarrow> s)
         | Some qv \<Rightarrow>
             (case curMidi s of
                None \<Rightarrow> s\<lparr>curMidi := Some qv, curStart := js_mul (Fin (real i)) frameDur\<rparr>
              | Some cm \<Rightarrow>
                  if js_gt (js_abs (js_sub qv cm)) (Fin 0)
                  then (let dur = js_sub (js_mul (Fin (real i)) frameDur) (curStart s)
                        in s\<lparr>outNotes := push_note uuid (curStart s) dur cm (outNotes s),
                             curMidi := Some qv,
                             curStart := js_mul (Fin (real i)) frameDur\<rparr>)
                  else s))"

text \<open>\<^verbatim>\<open>for (let i = 0; i < f0Med.length; i++)\<close>, on the entries from index \<open>i\<close> on.\<close>

fun handleFile_loop ::
  "(nat \<Rightarrow> string) \<Rightarrow> jsnum \<Rightarrow> nat \<Rightarrow> jsnum list \<Rightarrow> seg_state \<Rightarrow> seg_state" where
  "handleFile_loop uuid frameDur i [] s = s"
| "handleFile_loop uuid frameDur i (hz # rest) s =
     handleFile_loop uuid frameDur (Suc i) rest (handleFile_step uuid frameDur i hz s)"

text \<open>Closing the last note, after the loop; \<open>n\<close> is \<^verbatim>\<open>f0Med.length\<close>.\<close>

definition close_last :: "(nat \<Rightarrow> string) \<Rightarrow> jsnum \<Rightarrow> nat \<Rightarrow> seg_state \<Rightarrow> Note list" where
  "close_last uuid frameDur n s =
     (case curMidi s of
        Some cm \<Rightarrow>
          (let dur = js_sub (js_mul (Fin (real n)) frameDur) (curStart s)
           in push_note uuid (curStart s) dur cm (outNotes s))
      | None \<Rightarrow> outNotes s)"

text \<open>Step 6 of \<^verbatim>\<open>handleFile\<close>: from the filtered pitch curve to the notes.\<close>

definition handleFile_segment :: "(nat \<Rightarrow> string) \<Rightarrow> jsnum list \<Rightarrow> real \<Rightarrow> Note list" where
  "handleFile_segment uuid f0Med sr =
     (let frameDur = js_div (Fin (real HOP_SIZE)) (Fin sr)
      in close_last uuid frameDur (length f0Med)
           (handleFile_loop uuid frameDur 0 f0Med
              \<lparr>outNotes = [], curStart = Fin 0, curMidi = None\<rparr>))"

text \<open>Steps 4 to 6 of \<^verbatim>\<open>handleFile\<close>: the notes handed to \<^verbatim>\<open>onNotes\<close>.\<close>

definition handleFile_notes :: "(nat \<Rightarrow> string) \<Rightarrow> jsnum list \<Rightarrow> real \<Rightarrow> error + Note list" where
  "handleFile_notes uuid ch0 sr =
     (case handleFile_f0 ch0 sr 0 [] of
        Inl e \<Rightarrow> Inl e
      | Inr f0 \<Rightarrow>
          (let f0Arr = map or_NaN f0;
               f0Med = medianFilter f0Arr 7
           in Inr (handleFile_segment uuid f0Med sr)))"

text \<open>
  Generator.tsx, \<^verbatim>\<open>analyzePart\<close>: the same window loop, written again with its own
  constants.
\<close>

definition HOP :: nat where
  "HOP = 512"

function analyzePart_f0 ::
  "jsnum list \<Rightarrow> real \<Rightarrow> nat \<Rightarrow> jsnum option list \<Rightarrow> error + jsnum option list" where
  "analyzePart_f0 ch0 sr i f0 =
     (if i + 2048 < length ch0
      then (case yin (take 2048 (drop i ch0))
                   \<lparr>threshold = 12 / 100, probabilityThreshold = 1 / 10, sampleRate = sr,
                    minFreq = Some 50, maxFreq = Some 1200\<rparr> of
              Inl e \<Rightarrow> Inl e
            | Inr r \<Rightarrow> analyzePart_f0 ch0 sr (i + HOP) (f0 @ [freqHz r]))
      else Inr f0)"
  by pat_completeness auto
termination
  by (relation "measure (\<lambda>(ch0, sr, i, f0). length ch0 - i)") (auto simp: HOP_def)

declare analyzePart_f0.simps [simp del]

text \<open>The body of the segmentation loop of \<^verbatim>\<open>analyzePart\<close> at index \<open>i\<close>.\<close>

definition analyzePart_step ::
  "(nat \<Rightarrow> string) \<Rightarrow> jsnum \<Rightarrow> nat \<Rightarrow> jsnum \<Rightarrow> seg_state \<Rightarrow> seg_state" where
  "analyzePart_step uuid frameDur i x s =
     (let hz = (if js_isFinite x then Some x else None);
          midi' = (case hz of
                     None \<Rightarrow> None
                   | Some h \<Rightarrow> Some (js_add (Fin 69) (js_mul (Fin 12) (js_log2 (js_div h (Fin 440))))));
          q = (case midi' of None \<Rightarrow> None | Some mv \<Rightarrow> Some (js_round mv))
      in case q of
           None \<Rightarrow>
             (case curMidi s of
                Some cm \<Rightarrow>
                  (let dur = js_sub (js_mul (Fin (real i)) frameDur) (curStart s)
                   in s\<lparr>outNotes := push_note uuid (curStart s) dur cm (outNotes s),
                        curMidi := None,
                        curStart := Fin (- 1)\<rparr>)
              | None \<Rightarrow> s)
         | Some qv \<Rightarrow>
             (case curMidi s of
                None \<Rightarrow> s\<lparr>curMidi := Some qv, curStart := js_mul (Fin (real i)) frameDur\<rparr>
              | Some cm \<Rightarrow>
                  if js_gt (js_abs (js_sub qv cm)) (Fin 0)
                  then (let dur = js_sub (js_mul (Fin (real i)) frameDur) (curStart s)
                        in s\<lparr>outNotes := push_note uuid (curStart s) dur cm (outNotes s),
                             curMidi := Some qv,
                             curStart := js_mul (Fin (real i)) frameDur\<rparr>)
                  else s))"

fun analyzePart_loop ::
  "(nat \<Rightarrow> string) \<Rightarrow> jsnum \<Rightarrow> nat \<Rightarrow> jsnum list \<Rightarrow> seg_state \<Rightarrow> seg_state" where
  "analyzePart_loop uuid frameDur i [] s = s"
| "analyzePart_loop uuid frameDur i (x # rest) s =
     analyzePart_loop uuid frameDur (Suc i) rest (analyzePart_step uuid frameDur i x s)"

definition analyzePart_segment :: "(nat \<Rightarrow> string) \<Rightarrow> jsnum list \<Rightarrow> real \<Rightarrow> Note list" where
  "analyzePart_segment uuid f0Med sr =
     (let frameDur = js_div (Fin (real HOP)) (Fin sr)
      in close_last uuid frameDur (length f0Med)
           (analyzePart_loop uuid frameDur 0 f0Med
              \<lparr>outNotes = [], curStart = Fin (- 1), curMidi = None\<rparr>))"

text \<open>The notes handed to \<^verbatim>\<open>setNotes\<close>.\<close>

definition analyzePart_notes :: "(nat \<Rightarrow> string) \<Rightarrow> jsnum list \<Rightarrow> real \<Rightarrow> error + Note list" where
  "analyzePart_notes uuid ch0 sr =
     (case analyzePart_f0 ch0 sr 0 [] of
        Inl e \<Rightarrow> Inl e
      | Inr f0 \<Rightarrow>
          (let f0Arr = map or_NaN f0;
               f0Med = medianFilter f0Arr 7
           in Inr (analyzePart_segment uuid f0Med sr)))"

section \<open>pitchTracker.ts: the streaming tracker\<close>

record PitchPoint =
  tSec :: jsnum
  freq :: "jsnum option"
  prob :: jsnum

text \<open>
  The \<^verbatim>\<open>Partial<YinConfig>\<close> of the constructor; \<^verbatim>\<open>start\<close> reads four of its
  fields and takes the sample rate from the audio context.
\<close>

record PartialYinConfig =
  cfg_threshold :: "real option"
  cfg_probabilityThreshold :: "real option"
  cfg_minFreq :: "real option"
  cfg_maxFreq :: "real option"

text \<open>
  The state a \<^verbatim>\<open>PitchTracker\<close> works on: its own fields (\<open>rafId\<close>, \<open>startedAt\<close>,
  \<open>lastEma\<close>, \<open>cfg\<close>, \<open>startOffset\<close>), the audio context (\<open>currentTime\<close>,
  \<open>ac_sampleRate\<close>), and the browser's list of animation frame callbacks. Every callback
  in that list is a \<^verbatim>\<open>loop\<close> closure made by a call of \<^verbatim>\<open>start\<close>; an entry is
  the handle returned by \<^verbatim>\<open>requestAnimationFrame\<close> and the number of the
  \<^verbatim>\<open>start\<close> call whose closure it is. \<open>received\<close> records what \<^verbatim>\<open>onData\<close> was
  called with, next to the result of \<^verbatim>\<open>yin\<close> in that tick. \<^verbatim>\<open>onData\<close> itself
  calls neither \<^verbatim>\<open>start\<close> nor \<^verbatim>\<open>stop\<close>.
\<close>

record world =
  rafId :: "nat option"
  startedAt :: jsnum
  lastEma :: "jsnum option"
  cfg :: PartialYinConfig
  startOffset :: jsnum
  currentTime :: real
  ac_sampleRate :: real
  callbacks :: "(nat \<times> nat) list"
  lastHandle :: nat
  starts :: nat
  received :: "(PitchPoint \<times> YinResult) list"

text \<open>The state after \<^verbatim>\<open>new PitchTracker(ac, stream, onData, cfg)\<close>.\<close>

definition constructed :: "PartialYinConfig \<Rightarrow> real \<Rightarrow> real \<Rightarrow> world" where
  "constructed c sr t =
     \<lparr>rafId = None, startedAt = Fin 0, lastEma = None, cfg = c, startOffset = Fin 0,
      currentTime = t, ac_sampleRate = sr, callbacks = [], lastHandle = 0, starts = 0,
      received = []\<rparr>"

text \<open>
  \<^verbatim>\<open>this.rafId = requestAnimationFrame(loop)\<close> for the closure of run \<open>r\<close>: the
  browser appends the callback to its list and returns a fresh handle.
\<close>

definition requestAnimationFrame :: "nat \<Rightarrow> world \<Rightarrow> world" where
  "requestAnimationFrame r w =
     (let h = lastHandle w + 1
      in w\<lparr>callbacks := callbacks w @ [(h, r)], lastHandle := h, rafId := Some h\<rparr>)"

text \<open>\<^verbatim>\<open>cancelAnimationFrame(h)\<close> removes the callback with that handle.\<close>

definition cancelAnimationFrame :: "nat \<Rightarrow> world \<Rightarrow> world" where
  "cancelAnimationFrame h w = w\<lparr>callbacks := filter (\<lambda>c. fst c \<noteq> h) (callbacks w)\<rparr>"

text \<open>\<^verbatim>\<open>start(startOffset)\<close>.\<close>

definition PitchTracker_start :: "real \<Rightarrow> world \<Rightarrow> world" where
  "PitchTracker_start off w =
     requestAnimationFrame (starts w)
       (w\<lparr>startOffset := Fin off,
          startedAt := js_sub (Fin (currentTime w)) (Fin off),
          starts := starts w + 1\<rparr>)"

text \<open>\<^verbatim>\<open>stop()\<close>.\<close>

definition PitchTracker_stop :: "world \<Rightarrow> world" where
  "PitchTracker_stop w =
     (case rafId w of
        Some h \<Rightarrow> (cancelAnimationFrame h w)\<lparr>rafId := None\<rparr>
      | None \<Rightarrow> w\<lparr>rafId := None\<rparr>)"

text \<open>The configuration literal built in \<^verbatim>\<open>loop\<close>.\<close>

definition loop_cfg :: "world \<Rightarrow> YinConfig" where
  "loop_cfg w =
     \<lparr>threshold = (case cfg_threshold (cfg w) of None \<Rightarrow> 12 / 100 | Some v \<Rightarrow> v),
      probabilityThreshold = (case cfg_probabilityThreshold (cfg w) of None \<Rightarrow> 1 / 10 | Some v \<Rightarrow> v),
      sampleRate = ac_sampleRate w,
      minFreq = Some (case cfg_minFreq (cfg w) of None \<Rightarrow> 50 | Some v \<Rightarrow> v),
      maxFreq = Some (case cfg_maxFreq (cfg w) of None \<Rightarrow> 1200 | Some v \<Rightarrow> v)\<rparr>"

text \<open>
  One call of the closure \<^verbatim>\<open>loop\<close> of run \<open>r\<close>; \<open>buf\<close> is what
  \<^verbatim>\<open>getFloatTimeDomainData\<close> wrote. An exception of \<^verbatim>\<open>yin\<close> ends the callback
  before it requests the next frame.
\<close>

definition loop :: "nat \<Rightarrow> jsnum list \<Rightarrow> world \<Rightarrow> world" where
  "loop r buf w =
     (case yin buf (loop_cfg w) of
        Inl e \<Rightarrow> w
      | Inr res \<Rightarrow>
          (let smoothed = (case freqHz res of
                             None \<Rightarrow> None
                           | Some f \<Rightarrow> Some (ema (lastEma w) f (Fin (25 / 100))));
               w1 = (case smoothed of None \<Rightarrow> w | Some v \<Rightarrow> w\<lparr>lastEma := Some v\<rparr>);
               tSec' = js_sub (Fin (currentTime w1)) (startedAt w1);
               point = \<lparr>tSec = tSec',
                        freq = (case smoothed of None \<Rightarrow> freqHz res | Some v \<Rightarrow> Some v),
                        prob = probability res\<rparr>;
               w2 = w1\<lparr>received := received w1 @ [(point, res)]\<rparr>
           in requestAnimationFrame r w2))"

text \<open>
  What happens to a tracker: a call of \<^verbatim>\<open>start\<close>, a call of \<^verbatim>\<open>stop\<close>, or the
  browser running the animation frame callbacks at audio time \<open>t\<close> while the analyser
  holds \<open>buf\<close>. The browser takes the list of callbacks, empties it, and calls each entry
  in order.
\<close>

datatype event = Start real | Stop | AnimationFrame "jsnum list" real

fun run_callbacks :: "jsnum list \<Rightarrow> (nat \<times> nat) list \<Rightarrow> world \<Rightarrow> world" where
  "run_callbacks buf [] w = w"
| "run_callbacks buf (c # cs) w = run_callbacks buf cs (loop (snd c) buf w)"

fun step :: "event \<Rightarrow> world \<Rightarrow> world" where
  "step (Start off) w = PitchTracker_start off w"
| "step Stop w = PitchTracker_stop w"
| "step (AnimationFrame buf t) w =
     run_callbacks buf (callbacks w) (w\<lparr>callbacks := [], currentTime := t\<rparr>)"

fun run_events :: "event list \<Rightarrow> world \<Rightarrow> world" where
  "run_events [] w = w"
| "run_events (e # es) w = run_events es (step e w)"

section \<open>Notions used in the statements\<close>

text \<open>
  A value that a sum of squares can have: a non-negative real, \<^verbatim>\<open>Infinity\<close> or
  \<^verbatim>\<open>NaN\<close>.
\<close>

fun nonneg_or_bad :: "jsnum \<Rightarrow> bool" where
  "nonneg_or_bad (Fin r) = (0 \<le> r)"
| "nonneg_or_bad NInf = False"
| "nonneg_or_bad v = True"



text \<open>The lag window when both lags are finite.\<close>

definition yin_lags :: "YinConfig \<Rightarrow> (int \<times> int) option" where
  "yin_lags c =
     (case (minLag_of c, maxLag_of c) of
        (Fin m, Fin M) \<Rightarrow> Some (\<lfloor>m\<rfloor>, \<lfloor>M\<rfloor>)
      | _ \<Rightarrow> None)"

text \<open>
  The specification's threshold search: scanning from \<open>minLag\<close> upward, the first lag
  whose \<^verbatim>\<open>cmnd\<close> is below the threshold.
\<close>

definition spec_first_below :: "jsnum list \<Rightarrow> real \<Rightarrow> int \<Rightarrow> int \<Rightarrow> int option" where
  "spec_first_below cmnd th m M = List.find (\<lambda>t. js_lt (ta_get cmnd t) (Fin th)) [m..M]"



text \<open>A received point that carries a frequency.\<close>

definition voiced :: "PitchPoint \<times> YinResult \<Rightarrow> bool" where
  "voiced x = (freq (fst x) \<noteq> None)"

text \<open>
  What two notes are compared on: start, duration and pitch, without the generated
  identifier.
\<close>

definition note_body :: "Note \<Rightarrow> jsnum \<times> jsnum \<times> jsnum" where
  "note_body n = (start n, duration n, midi n)"



section \<open>Invariants used in the proofs\<close>


text \<open>
  While nothing received carried a frequency the smoothing state is unset, and the first
  received point that carries one carries the result of \<^verbatim>\<open>yin\<close> unchanged.
\<close>

definition raw_first :: "world \<Rightarrow> bool" where
  "raw_first w =
     ((List.find voiced (received w) = None \<longrightarrow> lastEma w = None) \<and>
      (\<forall>x. List.find voiced (received w) = Some x \<longrightarrow> freq (fst x) = freqHz (snd x)))"

text \<open>The states of the two segmentation loops agree on everything that is read later.\<close>

definition seg_rel :: "seg_state \<Rightarrow> seg_state \<Rightarrow> bool" where
  "seg_rel s s' =
     (map note_body (outNotes s) = map note_body (outNotes s') \<and>
      curMidi s = curMidi s' \<and>
      (curMidi s \<noteq> None \<longrightarrow> curStart s = curStart s'))"



section \<open>Properties of the loops\<close>


subsection \<open>Typed arrays\<close>

lemma length_ta_set [simp]: "length (ta_set xs i v) = length xs"
  by (simp add: ta_set_def)

lemma ta_get_ta_set:
  "ta_get (ta_set xs i v) j = (if j = i \<and> 0 \<le> i \<and> i < int (length xs) then v else ta_get xs j)"
  by (auto simp: ta_get_def ta_set_def nth_list_update)

lemma ta_get_replicate:
  "ta_get (replicate n v) j = (if 0 \<le> j \<and> j < int n then v else NaN)"
  by (auto simp: ta_get_def nat_less_iff)

subsection \<open>The difference loop\<close>

lemma length_diff_loop [simp]: "length (diff_loop frame N tau maxLag diff) = length diff"
proof (induction frame N tau maxLag diff rule: diff_loop.induct)
  case (1 frame N tau maxLag diff)
  show ?case
  proof (cases "tau \<le> maxLag")
    case True
    with "1.IH" show ?thesis by (subst diff_loop.simps) simp
  next
    case False
    then show ?thesis by (subst diff_loop.simps) simp
  qed
qed

lemma ta_get_diff_loop:
  "ta_get (diff_loop frame N tau maxLag diff) j =
     (if tau \<le> j \<and> j \<le> maxLag \<and> 0 \<le> j \<and> j < int (length diff)
      then diff_sum frame N j 0 (Fin 0) else ta_get diff j)"
proof (induction frame N tau maxLag diff rule: diff_loop.induct)
  case (1 frame N tau maxLag diff)
  show ?case
  proof (cases "tau \<le> maxLag")
    case True
    then have "ta_get (diff_loop frame N tau maxLag diff) j =
        ta_get (diff_loop frame N (tau + 1) maxLag (ta_set diff tau (diff_sum frame N tau 0 (Fin 0)))) j"
      by (subst diff_loop.simps) simp
    also have "\<dots> = (if tau + 1 \<le> j \<and> j \<le> maxLag \<and> 0 \<le> j \<and> j < int (length diff)
      then diff_sum frame N j 0 (Fin 0)
      else ta_get (ta_set diff tau (diff_sum frame N tau 0 (Fin 0))) j)"
      using "1.IH" [OF True] by simp
    finally show ?thesis using True by (auto simp: ta_get_ta_set)
  next
    case False
    then show ?thesis by (subst diff_loop.simps) auto
  qed
qed

subsection \<open>Sums of squares\<close>

lemma square_nonneg_or_bad: "nonneg_or_bad (js_mul d d)"
  by (cases d) (simp_all add: inf_of_sign_def)

lemma add_nonneg_or_bad: "nonneg_or_bad a \<Longrightarrow> nonneg_or_bad b \<Longrightarrow> nonneg_or_bad (js_add a b)"
  by (cases a; cases b) simp_all

lemma add_eq_zero:
  "nonneg_or_bad a \<Longrightarrow> nonneg_or_bad b \<Longrightarrow> js_add a b = Fin 0 \<Longrightarrow> a = Fin 0 \<and> b = Fin 0"
  by (cases a; cases b) (auto simp: add_nonneg_eq_0_iff)

lemma diff_sum_nonneg_or_bad:
  "nonneg_or_bad sumv \<Longrightarrow> nonneg_or_bad (diff_sum frame N tau i sumv)"
proof (induction frame N tau i sumv rule: diff_sum.induct)
  case (1 frame N tau i sumv)
  show ?case
  proof (cases "i + tau < N")
    case True
    then show ?thesis
      using "1.IH" [OF True refl] "1.prems"
      by (subst diff_sum.simps) (simp add: Let_def add_nonneg_or_bad square_nonneg_or_bad)
  next
    case False
    then show ?thesis using "1.prems" by (subst diff_sum.simps) simp
  qed
qed

lemma yin_diff_nonneg_or_bad:
  "0 \<le> j \<Longrightarrow> j \<le> M \<Longrightarrow> nonneg_or_bad (ta_get (yin_diff frame m M) j)"
  by (simp add: yin_diff_def ta_get_diff_loop ta_get_replicate diff_sum_nonneg_or_bad)


subsection \<open>The normalisation loop\<close>

lemma cmnd_loop_done: "maxLag < tau \<Longrightarrow> cmnd_loop diff tau maxLag st = st"
  by (subst cmnd_loop.simps) simp

lemma cmnd_loop_step:
  "tau \<le> maxLag \<Longrightarrow>
   cmnd_loop diff tau maxLag st =
     cmnd_loop diff (tau + 1) maxLag
       (js_add (fst st) (ta_get diff tau),
        ta_set (snd st) tau
          (js_div (js_mul (ta_get diff tau) (Fin (of_int tau))) (js_add (fst st) (ta_get diff tau))))"
  by (subst cmnd_loop.simps) (simp add: Let_def)

lemma length_cmnd_loop [simp]: "length (snd (cmnd_loop diff tau maxLag st)) = length (snd st)"
proof (induction diff tau maxLag st rule: cmnd_loop.induct)
  case (1 diff tau maxLag st)
  show ?case
  proof (cases "tau \<le> maxLag")
    case True
    with "1.IH" [OF True refl] show ?thesis by (simp add: cmnd_loop_step)
  next
    case False
    then show ?thesis by (simp add: cmnd_loop_done)
  qed
qed

text \<open>Running the loop up to \<open>k\<close> and then from \<open>k + 1\<close> is running it to the end.\<close>

lemma cmnd_loop_split:
  "tau - 1 \<le> k \<Longrightarrow> k \<le> maxLag \<Longrightarrow>
   cmnd_loop diff tau maxLag st = cmnd_loop diff (k + 1) maxLag (cmnd_loop diff tau k st)"
proof (induction diff tau maxLag st rule: cmnd_loop.induct)
  case (1 diff tau maxLag st)
  show ?case
  proof (cases "tau \<le> k")
    case True
    then have le: "tau \<le> maxLag" using "1.prems" by simp
    show ?thesis
      using "1.IH" [OF le refl] True "1.prems"
      by (simp add: cmnd_loop_step [OF le] cmnd_loop_step [OF True])
  next
    case False
    then have "k = tau - 1" using "1.prems" by simp
    then show ?thesis by (simp add: cmnd_loop_done)
  qed
qed

text \<open>Entries below the loop variable are not written any more.\<close>

lemma ta_get_cmnd_loop_below:
  "j < tau \<Longrightarrow> ta_get (snd (cmnd_loop diff tau maxLag st)) j = ta_get (snd st) j"
proof (induction diff tau maxLag st rule: cmnd_loop.induct)
  case (1 diff tau maxLag st)
  show ?case
  proof (cases "tau \<le> maxLag")
    case True
    with "1.IH" [OF True refl] "1.prems" show ?thesis
      by (simp add: cmnd_loop_step ta_get_ta_set)
  next
    case False
    then show ?thesis by (simp add: cmnd_loop_done)
  qed
qed

text \<open>The entry written at \<open>k\<close> is the quotient by the running sum after adding \<open>diff[k]\<close>.\<close>

lemma cmnd_loop_last:
  "tau \<le> k \<Longrightarrow>
   cmnd_loop diff tau k st =
     (let st' = cmnd_loop diff tau (k - 1) st;
          runningSum = js_add (fst st') (ta_get diff k)
      in (runningSum,
          ta_set (snd st') k (js_div (js_mul (ta_get diff k) (Fin (of_int k))) runningSum)))"
proof -
  assume le: "tau \<le> k"
  have "cmnd_loop diff tau k st = cmnd_loop diff (k - 1 + 1) k (cmnd_loop diff tau (k - 1) st)"
    using le by (intro cmnd_loop_split) simp_all
  then show ?thesis
    by (simp add: cmnd_loop_step cmnd_loop_done Let_def)
qed

lemma ta_get_cmnd_loop_at:
  assumes "tau \<le> k" "k \<le> maxLag" "0 \<le> k" "k < int (length (snd st))"
  shows "ta_get (snd (cmnd_loop diff tau maxLag st)) k =
     js_div (js_mul (ta_get diff k) (Fin (of_int k))) (fst (cmnd_loop diff tau k st))"
proof -
  have "ta_get (snd (cmnd_loop diff tau maxLag st)) k = ta_get (snd (cmnd_loop diff tau k st)) k"
    using assms by (subst cmnd_loop_split [of tau k maxLag]) (simp_all add: ta_get_cmnd_loop_below)
  also have "\<dots> = js_div (js_mul (ta_get diff k) (Fin (of_int k))) (fst (cmnd_loop diff tau k st))"
    using assms by (simp add: cmnd_loop_last Let_def ta_get_ta_set)
  finally show ?thesis .
qed

text \<open>The running sum of values that are sums of squares.\<close>

lemma running_sum_nonneg_or_bad:
  "nonneg_or_bad (fst st) \<Longrightarrow> \<forall>j. tau \<le> j \<and> j \<le> maxLag \<longrightarrow> nonneg_or_bad (ta_get diff j) \<Longrightarrow>
   nonneg_or_bad (fst (cmnd_loop diff tau maxLag st))"
proof (induction diff tau maxLag st rule: cmnd_loop.induct)
  case (1 diff tau maxLag st)
  show ?case
  proof (cases "tau \<le> maxLag")
    case True
    have "nonneg_or_bad (js_add (fst st) (ta_get diff tau))"
      using "1.prems" True by (intro add_nonneg_or_bad) simp_all
    with "1.IH" [OF True refl] "1.prems" True show ?thesis
      by (simp add: cmnd_loop_step)
  next
    case False
    with "1.prems" show ?thesis by (simp add: cmnd_loop_done)
  qed
qed

lemma running_sum_zero:
  assumes "tau \<le> k" "nonneg_or_bad (fst st)"
    and "\<forall>j. tau \<le> j \<and> j \<le> k \<longrightarrow> nonneg_or_bad (ta_get diff j)"
    and "fst (cmnd_loop diff tau k st) = Fin 0"
  shows "ta_get diff k = Fin 0 \<and> fst (cmnd_loop diff tau (k - 1) st) = Fin 0"
proof -
  have prev: "nonneg_or_bad (fst (cmnd_loop diff tau (k - 1) st))"
    using assms by (intro running_sum_nonneg_or_bad) simp_all
  have "js_add (fst (cmnd_loop diff tau (k - 1) st)) (ta_get diff k) = Fin 0"
    using assms by (simp add: cmnd_loop_last Let_def)
  moreover have "nonneg_or_bad (ta_get diff k)"
    using assms by simp
  ultimately show ?thesis
    using add_eq_zero [OF prev] by simp
qed


subsection \<open>The entries of the normalised array\<close>

lemma yin_cmnd_at:
  assumes "1 \<le> tau" "tau \<le> M"
  shows "ta_get (yin_cmnd frame m M) tau =
     js_div (js_mul (ta_get (yin_diff frame m M) tau) (Fin (of_int tau)))
       (fst (yin_cmnd_state frame m M tau))"
  using assms unfolding yin_cmnd_def yin_cmnd_state_def
  by (subst ta_get_cmnd_loop_at) simp_all


lemma zero_sum_NaN:
  assumes "1 \<le> tau" "tau \<le> M" "fst (yin_cmnd_state frame m M tau) = Fin 0"
  shows "ta_get (yin_cmnd frame m M) tau = NaN"
proof -
  have "ta_get (yin_diff frame m M) tau = Fin 0"
    using assms(3) unfolding yin_cmnd_state_def
    by (rule running_sum_zero [OF assms(1), THEN conjunct1, rotated 2])
       (use assms in \<open>simp_all add: yin_diff_nonneg_or_bad\<close>)
  then show ?thesis
    using assms by (simp add: yin_cmnd_at)
qed

subsection \<open>The threshold search\<close>

lemma search_loop_find:
  "search_loop cmnd th t maxLag =
     (case List.find (\<lambda>t. js_lt (ta_get cmnd t) (Fin th)) [t..maxLag] of None \<Rightarrow> - 1 | Some r \<Rightarrow> r)"
proof (induction cmnd th t maxLag rule: search_loop.induct)
  case (1 cmnd th t maxLag)
  show ?case
  proof (cases "t \<le> maxLag")
    case True
    then have "[t..maxLag] = t # [t + 1..maxLag]" by (simp add: upto_rec1)
    with "1.IH" True show ?thesis by (subst search_loop.simps) simp
  next
    case False
    then show ?thesis by (subst search_loop.simps) simp
  qed
qed

lemma find_below_nonneg:
  "List.find (\<lambda>t. js_lt (ta_get cmnd t) (Fin th)) xs = Some r \<Longrightarrow> 0 \<le> r"
  by (auto simp: find_Some_iff ta_get_def split: if_splits)

lemma search_loop_spec:
  "search_loop cmnd th m M = - 1 \<longleftrightarrow> spec_first_below cmnd th m M = None"
  "spec_first_below cmnd th m M = Some r \<Longrightarrow> search_loop cmnd th m M = r"
  using find_below_nonneg [of cmnd th "[m..M]"]
  by (auto simp: search_loop_find spec_first_below_def split: option.splits)

lemma search_loop_lt:
  "search_loop cmnd th m M = r \<Longrightarrow> r \<noteq> - 1 \<Longrightarrow> js_lt (ta_get cmnd r) (Fin th)"
  by (auto simp: search_loop_find find_Some_iff split: option.splits)


subsection \<open>The silent frame\<close>








lemma yin_decide_composition:
  "yin_decide c cmnd m M =
     (case spec_first_below cmnd (threshold c) m M of
        None \<Rightarrow> \<lparr>freqHz = None, probability = Fin 0\<rparr>
      | Some tau \<Rightarrow>
          \<lparr>freqHz = (if js_lt (js_sub (Fin 1) (ta_get cmnd tau)) (Fin (probabilityThreshold c))
                     then None
                     else Some (js_div (Fin (sampleRate c)) (betterTau cmnd m M tau))),
           probability = js_sub (Fin 1) (ta_get cmnd tau)\<rparr>)"
proof (cases "spec_first_below cmnd (threshold c) m M")
  case None
  then show ?thesis by (simp add: yin_decide_def search_loop_spec(1))
next
  case (Some r)
  then have "search_loop cmnd (threshold c) m M = r" by (rule search_loop_spec(2))
  moreover have "r \<noteq> - 1"
    using Some find_below_nonneg [of cmnd "threshold c" "[m..M]" r]
    by (simp add: spec_first_below_def)
  ultimately show ?thesis using Some by (simp add: yin_decide_def Let_def)
qed

subsection \<open>The tracker\<close>






lemma find_snoc:
  "List.find P (xs @ [x]) =
     (case List.find P xs of Some y \<Rightarrow> Some y | None \<Rightarrow> if P x then Some x else None)"
  by (induction xs) auto

lemma raw_first_cong:
  "received w' = received w \<Longrightarrow> lastEma w' = lastEma w \<Longrightarrow> raw_first w' = raw_first w"
  by (simp add: raw_first_def)

lemma loop_Inl: "yin buf (loop_cfg w) = Inl e \<Longrightarrow> loop r buf w = w"
  by (simp add: loop_def)

lemma loop_Inr:
  assumes "yin buf (loop_cfg w) = Inr res"
  shows "received (loop r buf w) =
       received w @
         [(\<lparr>tSec = js_sub (Fin (currentTime w)) (startedAt w),
            freq = (case freqHz res of
                      None \<Rightarrow> None
                    | Some f \<Rightarrow> Some (ema (lastEma w) f (Fin (25 / 100)))),
            prob = probability res\<rparr>, res)]"
    and "lastEma (loop r buf w) =
       (case freqHz res of
          None \<Rightarrow> lastEma w
        | Some f \<Rightarrow> Some (ema (lastEma w) f (Fin (25 / 100))))"
  using assms
  by (cases "freqHz res"; simp add: loop_def requestAnimationFrame_def Let_def)+

lemma raw_first_loop:
  assumes "raw_first w"
  shows "raw_first (loop r buf w)"
proof (cases "yin buf (loop_cfg w)")
  case (Inl e)
  with assms show ?thesis by (simp add: loop_Inl)
next
  case (Inr res)
  note step = loop_Inr [OF Inr, of r]
  show ?thesis
  proof (cases "List.find voiced (received w)")
    case (Some x)
    with assms show ?thesis
      by (simp add: raw_first_def step find_snoc)
  next
    case None
    with assms have "lastEma w = None" by (simp add: raw_first_def)
    with None show ?thesis
      by (cases "freqHz res") (simp_all add: raw_first_def step find_snoc voiced_def ema_def)
  qed
qed

lemma raw_first_run_callbacks: "raw_first w \<Longrightarrow> raw_first (run_callbacks buf cs w)"
  by (induction cs arbitrary: w) (simp_all add: raw_first_loop)

lemma raw_first_step: "raw_first w \<Longrightarrow> raw_first (step e w)"
proof (cases e)
  case (Start off)
  assume "raw_first w"
  then show ?thesis
    using Start
    by (simp add: PitchTracker_start_def requestAnimationFrame_def Let_def raw_first_def)
next
  case Stop
  assume "raw_first w"
  then show ?thesis
    using Stop by (simp add: PitchTracker_stop_def cancelAnimationFrame_def raw_first_def split: option.splits)
next
  case (AnimationFrame buf t)
  assume "raw_first w"
  then have "raw_first (w\<lparr>callbacks := [], currentTime := t\<rparr>)"
    by (simp add: raw_first_def)
  then show ?thesis
    using AnimationFrame by (simp add: raw_first_run_callbacks)
qed

lemma raw_first_run_events: "raw_first w \<Longrightarrow> raw_first (run_events es w)"
  by (induction es arbitrary: w) (simp_all add: raw_first_step)

subsection \<open>The two segmentation loops\<close>

lemma push_note_body:
  "map note_body ns = map note_body ns' \<Longrightarrow>
   map note_body (push_note uuid cs dur cm ns) = map note_body (push_note uuid' cs dur cm ns')"
  by (simp add: push_note_def note_body_def)

lemma seg_rel_step:
  assumes "seg_rel s s'"
  shows "seg_rel (handleFile_step uuid fd i x s) (analyzePart_step uuid' fd i x s')"
proof -
  from assms have n: "map note_body (outNotes s) = map note_body (outNotes s')"
    and m: "curMidi s = curMidi s'"
    by (simp_all add: seg_rel_def)
  show ?thesis
  proof (cases "curMidi s")
    case None
    with m show ?thesis
      using n by (simp add: seg_rel_def handleFile_step_def analyzePart_step_def hzToMidiNumber_def)
  next
    case (Some cm)
    from assms Some have m': "curMidi s' = Some cm" and c: "curStart s = curStart s'"
      by (auto simp: seg_rel_def)
    show ?thesis
      using Some m' c n push_note_body [OF n]
      by (simp add: seg_rel_def handleFile_step_def analyzePart_step_def hzToMidiNumber_def Let_def)
  qed
qed

lemma seg_rel_loop:
  "seg_rel s s' \<Longrightarrow>
   seg_rel (handleFile_loop uuid fd i xs s) (analyzePart_loop uuid' fd i xs s')"
  by (induction xs arbitrary: i s s') (simp_all add: seg_rel_step)

lemma seg_rel_close_last:
  "seg_rel s s' \<Longrightarrow>
   map note_body (close_last uuid fd n s) = map note_body (close_last uuid' fd n s')"
proof (cases "curMidi s")
  case None
  assume "seg_rel s s'"
  with None show ?thesis by (auto simp: seg_rel_def close_last_def)
next
  case (Some cm)
  assume r: "seg_rel s s'"
  with Some have m': "curMidi s' = Some cm" and c: "curStart s = curStart s'"
    and n: "map note_body (outNotes s) = map note_body (outNotes s')"
    by (auto simp: seg_rel_def)
  show ?thesis
    using push_note_body [OF n] by (simp add: close_last_def Some m' c Let_def)
qed

lemma segment_bodies:
  "map note_body (handleFile_segment uuid f0Med sr) =
   map note_body (analyzePart_segment uuid' f0Med sr)"
  unfolding handleFile_segment_def analyzePart_segment_def Let_def HOP_SIZE_def HOP_def
  by (intro seg_rel_close_last seg_rel_loop) (simp add: seg_rel_def)

lemma f0_same: "handleFile_f0 ch0 sr i f0 = analyzePart_f0 ch0 sr i f0"
proof (induction ch0 sr i f0 rule: handleFile_f0.induct)
  case (1 ch0 sr i f0)
  show ?case
  proof (cases "i + FRAME_SIZE < length ch0")
    case True
    show ?thesis
    proof (cases "yin (take FRAME_SIZE (drop i ch0)) (extractor_cfg sr)")
      case (Inl e)
      with True show ?thesis
        by (subst handleFile_f0.simps, subst analyzePart_f0.simps)
           (simp add: FRAME_SIZE_def extractor_cfg_def)
    next
      case (Inr res)
      with True "1.IH" [OF True Inr] show ?thesis
        by (subst handleFile_f0.simps, subst analyzePart_f0.simps)
           (simp add: FRAME_SIZE_def HOP_SIZE_def HOP_def extractor_cfg_def)
    qed
  next
    case False
    then show ?thesis
      by (subst handleFile_f0.simps, subst analyzePart_f0.simps) (simp add: FRAME_SIZE_def)
  qed
qed

subsection \<open>The duration gate and the order of the notes\<close>














subsection \<open>Frames of finite samples\<close>













section \<open>The claims\<close>

lemmas yin_eval =
  yin_def maxLag_of_def minLag_of_def maxFreq_or_def minFreq_or_def new_Float32Array_def
  yin_decide_def yin_cmnd_def yin_cmnd_state_def yin_diff_def yin_N_def diff_loop.simps
  diff_sum.simps cmnd_loop.simps search_loop.simps ta_get_def ta_set_def betterTau_def
  js_sub_def Let_def

lemmas tracker_eval =
  constructed_def PitchTracker_start_def PitchTracker_stop_def requestAnimationFrame_def
  cancelAnimationFrame_def loop_def loop_cfg_def ema_def voiced_def

lemmas segment_eval =
  handleFile_segment_def analyzePart_segment_def handleFile_step_def analyzePart_step_def
  hzToMidiNumber_def close_last_def push_note_def HOP_SIZE_def HOP_def js_sub_def js_gt_def
  js_ge_def Let_def

subsection \<open>C1\<close>

text \<open>
  C1, as stated, fails on the silent frame of eight samples with lags 2 to 8: the running
  sum after lag 3 is zero, and \<^verbatim>\<open>cmnd[3]\<close> is \<^verbatim>\<open>NaN\<close>, not zero.
\<close>

theorem cmnd_zero_running_sum_counterexample:
  "minLag_of \<lparr>threshold = 1 / 2, probabilityThreshold = 1 / 10, sampleRate = 8000,
              minFreq = Some 1000, maxFreq = Some 4000\<rparr> = Fin 2
   \<and> maxLag_of \<lparr>threshold = 1 / 2, probabilityThreshold = 1 / 10, sampleRate = 8000,
                minFreq = Some 1000, maxFreq = Some 4000\<rparr> = Fin 8
   \<and> fst (yin_cmnd_state (replicate 8 (Fin 0)) 2 8 3) = Fin 0
   \<and> ta_get (yin_cmnd (replicate 8 (Fin 0)) 2 8) 3 = NaN
   \<and> ta_get (yin_cmnd (replicate 8 (Fin 0)) 2 8) 3 \<noteq> Fin 0"
  by (simp add: yin_eval)

text \<open>
  C1 (amended): whenever the running sum of the normalisation loop is exactly zero after
  adding \<^verbatim>\<open>diff[tau]\<close>, for a lag \<open>tau\<close> from 1 to \<open>maxLag\<close>, the estimator stores
  \<^verbatim>\<open>NaN\<close> (the quotient \<^verbatim>\<open>0 * tau / 0\<close>) in \<^verbatim>\<open>cmnd[tau]\<close>, not zero; the
  comparison of \<^verbatim>\<open>NaN\<close> with the threshold is false, so the threshold search never
  selects that lag.
\<close>

theorem cmnd_zero_running_sum:
  assumes "1 \<le> tau" and "tau \<le> M" and "fst (yin_cmnd_state frame m M tau) = Fin 0"
  shows "ta_get (yin_cmnd frame m M) tau = NaN
    \<and> search_loop (yin_cmnd frame m M) th m M \<noteq> tau"
proof -
  have nan: "ta_get (yin_cmnd frame m M) tau = NaN"
    using assms by (rule zero_sum_NaN)
  have "search_loop (yin_cmnd frame m M) th m M \<noteq> tau"
  proof
    assume eq: "search_loop (yin_cmnd frame m M) th m M = tau"
    have "tau \<noteq> - 1" using assms(1) by simp
    from search_loop_lt [OF eq this] nan show False by simp
  qed
  with nan show ?thesis by simp
qed

text \<open>
  The theorem at a frame of period two with lags 2 to 8: the running sum is zero at lag 2,
  \<^verbatim>\<open>cmnd[2]\<close> is \<^verbatim>\<open>NaN\<close>, and the search passes over lag 2.
\<close>

theorem cmnd_zero_running_sum_witness:
  "(1::int) \<le> 2 \<and> (2::int) \<le> 8
   \<and> fst (yin_cmnd_state (map Fin [1, 0, 1, 0, 1, 0, 1, 0]) 2 8 2) = Fin 0
   \<and> ta_get (yin_cmnd (map Fin [1, 0, 1, 0, 1, 0, 1, 0]) 2 8) 2 = NaN
   \<and> search_loop (yin_cmnd (map Fin [1, 0, 1, 0, 1, 0, 1, 0]) 2 8) (1 / 2) 2 8 \<noteq> 2"
proof -
  have h: "fst (yin_cmnd_state (map Fin [1, 0, 1, 0, 1, 0, 1, 0]) 2 8 2) = Fin 0"
    by (simp add: yin_eval)
  show ?thesis
    using h cmnd_zero_running_sum [of 2 8 "map Fin [1, 0, 1, 0, 1, 0, 1, 0]" 2 "1 / 2"]
    by simp
qed

subsection \<open>C2\<close>




subsection \<open>C3\<close>




subsection \<open>C4\<close>

text \<open>
  C4, as stated, fails where the probability gate closes. On this frame, with lags 2 to 8
  and threshold \<open>1/2\<close>, the first lag below the threshold is 6, and yet with
  \<^verbatim>\<open>probabilityThreshold = 0.9\<close> the result has no frequency: \<^verbatim>\<open>freqHz\<close> is
  \<^verbatim>\<open>null\<close>, not \<^verbatim>\<open>sampleRate / betterTau\<close>.
\<close>

theorem yin_decision_counterexample:
  "spec_first_below
     (yin_cmnd (map Fin [3 / 4, 3 / 4, 1, - 1 / 4, 1 / 4, - 1 / 4, - 1 / 4, 3 / 4]) 2 8)
     (1 / 2) 2 8 = Some 6
   \<and> yin (map Fin [3 / 4, 3 / 4, 1, - 1 / 4, 1 / 4, - 1 / 4, - 1 / 4, 3 / 4])
       \<lparr>threshold = 1 / 2, probabilityThreshold = 9 / 10, sampleRate = 8000,
        minFreq = Some 1000, maxFreq = Some 4000\<rparr>
     = Inr \<lparr>freqHz = None, probability = Fin (109 / 205)\<rparr>"
  by (simp add: yin_eval spec_first_below_def upto_rec1)

text \<open>
  C4 (amended): whenever the estimator returns a result, that result is composed as
  follows. Scan the lags from \<open>minLag\<close> upward and take the first one whose
  \<^verbatim>\<open>cmnd\<close> is below the threshold (not the global minimum). If there is none (or the
  lags are not both finite, so that nothing is scanned), the result is
  \<^verbatim>\<open>{freqHz: null, probability: 0}\<close>. Otherwise \<^verbatim>\<open>probability\<close> is
  \<open>1 - cmnd(tau)\<close> at the integer lag, and \<^verbatim>\<open>freqHz\<close> is \<open>sampleRate / tau'\<close> at the
  refined lag \<open>tau'\<close> unless \<^verbatim>\<open>probability < probabilityThreshold\<close>, in which case
  \<^verbatim>\<open>freqHz\<close> is absent.
\<close>

theorem yin_decision:
  assumes "yin frame c = Inr r"
  shows "r =
     (case yin_lags c of
        None \<Rightarrow> \<lparr>freqHz = None, probability = Fin 0\<rparr>
      | Some (m, M) \<Rightarrow>
          (case spec_first_below (yin_cmnd frame m M) (threshold c) m M of
             None \<Rightarrow> \<lparr>freqHz = None, probability = Fin 0\<rparr>
           | Some tau \<Rightarrow>
               \<lparr>freqHz =
                  (if js_lt (js_sub (Fin 1) (ta_get (yin_cmnd frame m M) tau))
                        (Fin (probabilityThreshold c))
                   then None
                   else Some (js_div (Fin (sampleRate c))
                                (betterTau (yin_cmnd frame m M) m M tau))),
                probability = js_sub (Fin 1) (ta_get (yin_cmnd frame m M) tau)\<rparr>))"
  using assms
  by (auto simp: yin_def yin_lags_def yin_decide_composition
           split: sum.splits jsnum.splits)

text \<open>
  The theorem at a frame with a dip at lag 6: the probability \<open>109/205\<close> is
  \<open>1 - cmnd(6)\<close>, and the frequency comes from the refined lag.
\<close>

theorem yin_decision_witness:
  "yin (map Fin [3 / 4, 3 / 4, 1, - 1 / 4, 1 / 4, - 1 / 4, - 1 / 4, 3 / 4])
     \<lparr>threshold = 1 / 2, probabilityThreshold = 1 / 10, sampleRate = 8000,
      minFreq = Some 1000, maxFreq = Some 4000\<rparr>
     = Inr \<lparr>freqHz = Some (Fin (- (13136000 / 1423))), probability = Fin (109 / 205)\<rparr>
   \<and> yin_lags \<lparr>threshold = 1 / 2, probabilityThreshold = 1 / 10, sampleRate = 8000,
               minFreq = Some 1000, maxFreq = Some 4000\<rparr> = Some (2, 8)
   \<and> spec_first_below
       (yin_cmnd (map Fin [3 / 4, 3 / 4, 1, - 1 / 4, 1 / 4, - 1 / 4, - 1 / 4, 3 / 4]) 2 8)
       (1 / 2) 2 8 = Some 6
   \<and> js_sub (Fin 1)
       (ta_get (yin_cmnd (map Fin [3 / 4, 3 / 4, 1, - 1 / 4, 1 / 4, - 1 / 4, - 1 / 4, 3 / 4]) 2 8) 6)
     = Fin (109 / 205)
   \<and> js_div (Fin 8000)
       (betterTau (yin_cmnd (map Fin [3 / 4, 3 / 4, 1, - 1 / 4, 1 / 4, - 1 / 4, - 1 / 4, 3 / 4]) 2 8)
          2 8 6)
     = Fin (- (13136000 / 1423))"
proof -
  have h: "yin (map Fin [3 / 4, 3 / 4, 1, - 1 / 4, 1 / 4, - 1 / 4, - 1 / 4, 3 / 4])
     \<lparr>threshold = 1 / 2, probabilityThreshold = 1 / 10, sampleRate = 8000,
      minFreq = Some 1000, maxFreq = Some 4000\<rparr>
     = Inr \<lparr>freqHz = Some (Fin (- (13136000 / 1423))), probability = Fin (109 / 205)\<rparr>"
    by (simp add: yin_eval)
  have l: "yin_lags \<lparr>threshold = 1 / 2, probabilityThreshold = 1 / 10, sampleRate = 8000,
               minFreq = Some 1000, maxFreq = Some 4000\<rparr> = Some (2, 8)"
    by (simp add: yin_lags_def minLag_of_def maxLag_of_def minFreq_or_def maxFreq_or_def)
  have f: "spec_first_below
       (yin_cmnd (map Fin [3 / 4, 3 / 4, 1, - 1 / 4, 1 / 4, - 1 / 4, - 1 / 4, 3 / 4]) 2 8)
       (1 / 2) 2 8 = Some 6"
    by (simp add: yin_eval spec_first_below_def upto_rec1)
  have p: "js_sub (Fin 1)
       (ta_get (yin_cmnd (map Fin [3 / 4, 3 / 4, 1, - 1 / 4, 1 / 4, - 1 / 4, - 1 / 4, 3 / 4]) 2 8) 6)
     = Fin (109 / 205)"
    by (simp add: yin_eval)
  have q: "js_div (Fin 8000)
       (betterTau (yin_cmnd (map Fin [3 / 4, 3 / 4, 1, - 1 / 4, 1 / 4, - 1 / 4, - 1 / 4, 3 / 4]) 2 8)
          2 8 6)
     = Fin (- (13136000 / 1423))"
    by (simp add: yin_eval)
  from yin_decision [OF h] show ?thesis
    by (simp only: h l f p q simp_thms)
qed

subsection \<open>C5\<close>




subsection \<open>C6\<close>



subsection \<open>C7\<close>



subsection \<open>C8\<close>

text \<open>
  C8: for every sample sequence and sample rate, and whatever identifiers are generated,
  the segmentation of FileMelodyExtractor and the segmentation of Generator produce note
  lists of the same length with the same start, duration and pitch at every position, or
  fail alike; the same holds for the two segmentation loops on any pitch curve.
\<close>

theorem segmentations_agree:
  "map note_body (handleFile_segment uuid f0Med sr) =
     map note_body (analyzePart_segment uuid' f0Med sr)
   \<and> map_sum id (map note_body) (handleFile_notes uuid ch0 sr) =
     map_sum id (map note_body) (analyzePart_notes uuid' ch0 sr)"
  by (simp add: handleFile_notes_def analyzePart_notes_def f0_same segment_bodies Let_def
           split: sum.splits)

text \<open>The theorem at the curve above, with two different supplies of identifiers.\<close>

theorem segmentations_agree_witness:
  "handleFile_segment (\<lambda>k. ''a'') (map Fin [440, 440, 440] @ [NaN] @ [Fin 880] @ [NaN] @ map Fin [440, 440]) 10240
     = [\<lparr>note_id = ''a'', start = Fin 0, duration = Fin (3 / 20), midi = Fin 69\<rparr>,
        \<lparr>note_id = ''a'', start = Fin (3 / 10), duration = Fin (1 / 10), midi = Fin 69\<rparr>]
   \<and> analyzePart_segment (\<lambda>k. ''b'') (map Fin [440, 440, 440] @ [NaN] @ [Fin 880] @ [NaN] @ map Fin [440, 440]) 10240
     = [\<lparr>note_id = ''b'', start = Fin 0, duration = Fin (3 / 20), midi = Fin 69\<rparr>,
        \<lparr>note_id = ''b'', start = Fin (3 / 10), duration = Fin (1 / 10), midi = Fin 69\<rparr>]
   \<and> map note_body
       [\<lparr>note_id = ''a'', start = Fin 0, duration = Fin (3 / 20), midi = Fin 69\<rparr>,
        \<lparr>note_id = ''a'', start = Fin (3 / 10), duration = Fin (1 / 10), midi = Fin 69\<rparr>]
     = map note_body
       [\<lparr>note_id = ''b'', start = Fin 0, duration = Fin (3 / 20), midi = Fin 69\<rparr>,
        \<lparr>note_id = ''b'', start = Fin (3 / 10), duration = Fin (1 / 10), midi = Fin 69\<rparr>]"
proof -
  have e: "handleFile_segment (\<lambda>k. ''a'') (map Fin [440, 440, 440] @ [NaN] @ [Fin 880] @ [NaN] @ map Fin [440, 440]) 10240
     = [\<lparr>note_id = ''a'', start = Fin 0, duration = Fin (3 / 20), midi = Fin 69\<rparr>,
        \<lparr>note_id = ''a'', start = Fin (3 / 10), duration = Fin (1 / 10), midi = Fin 69\<rparr>]"
    by (simp add: segment_eval)
  have e': "analyzePart_segment (\<lambda>k. ''b'') (map Fin [440, 440, 440] @ [NaN] @ [Fin 880] @ [NaN] @ map Fin [440, 440]) 10240
     = [\<lparr>note_id = ''b'', start = Fin 0, duration = Fin (3 / 20), midi = Fin 69\<rparr>,
        \<lparr>note_id = ''b'', start = Fin (3 / 10), duration = Fin (1 / 10), midi = Fin 69\<rparr>]"
    by (simp add: segment_eval)
  from segmentations_agree
    [of "\<lambda>k. ''a''" "(map Fin [440, 440, 440] @ [NaN] @ [Fin 880] @ [NaN] @ map Fin [440, 440])" 10240 "\<lambda>k. ''b''" "[]"]
  show ?thesis unfolding e e' by simp
qed

subsection \<open>C9\<close>


subsection \<open>C10\<close>

text \<open>
  C10: \<^verbatim>\<open>ema(prev, next, alpha)\<close> returns \<^verbatim>\<open>next\<close> when \<^verbatim>\<open>prev\<close> is
  \<^verbatim>\<open>null\<close> and when \<^verbatim>\<open>prev\<close> is not finite; and after any sequence of events on a
  freshly constructed tracker, the first point handed to \<^verbatim>\<open>onData\<close> that carries a
  frequency carries exactly the frequency \<^verbatim>\<open>yin\<close> returned in that tick.
\<close>

theorem ema_first_sample:
  "ema None nxt alpha = nxt
   \<and> (\<not> js_isFinite p \<longrightarrow> ema (Some p) nxt alpha = nxt)
   \<and> (List.find voiced (received (run_events es (constructed c sr t))) = Some (pt, res)
        \<longrightarrow> freq pt = freqHz res)"
proof -
  have "raw_first (constructed c sr t)"
    by (simp add: raw_first_def constructed_def)
  then have "raw_first (run_events es (constructed c sr t))"
    by (rule raw_first_run_events)
  then show ?thesis
    by (auto simp: raw_first_def ema_def)
qed

text \<open>
  The theorem at a tracker that sees a silent frame and then a frame of period two: the
  second tick emits the raw 208000/107 Hz.
\<close>

theorem ema_first_sample_witness:
  "ema None (Fin 440) (Fin (1 / 4)) = Fin 440
   \<and> \<not> js_isFinite NaN
   \<and> ema (Some NaN) (Fin 440) (Fin (1 / 4)) = Fin 440
   \<and> List.find voiced (received (run_events
        [Start 0, AnimationFrame (replicate 8 (Fin 0)) 1,
         AnimationFrame (map Fin [1, 0, 1, 0, 1, 0, 1, 0]) 2]
        (constructed \<lparr>cfg_threshold = Some (1 / 2), cfg_probabilityThreshold = Some (1 / 10),
                       cfg_minFreq = Some 1000, cfg_maxFreq = Some 4000\<rparr> 8000 0)))
     = Some (\<lparr>tSec = Fin 2, freq = Some (Fin (208000 / 107)), prob = Fin 1\<rparr>,
             \<lparr>freqHz = Some (Fin (208000 / 107)), probability = Fin 1\<rparr>)
   \<and> freq \<lparr>tSec = Fin 2, freq = Some (Fin (208000 / 107)), prob = Fin 1\<rparr>
     = freqHz \<lparr>freqHz = Some (Fin (208000 / 107)), probability = Fin 1\<rparr>"
proof -
  have h: "List.find voiced (received (run_events
        [Start 0, AnimationFrame (replicate 8 (Fin 0)) 1,
         AnimationFrame (map Fin [1, 0, 1, 0, 1, 0, 1, 0]) 2]
        (constructed \<lparr>cfg_threshold = Some (1 / 2), cfg_probabilityThreshold = Some (1 / 10),
                       cfg_minFreq = Some 1000, cfg_maxFreq = Some 4000\<rparr> 8000 0)))
     = Some (\<lparr>tSec = Fin 2, freq = Some (Fin (208000 / 107)), prob = Fin 1\<rparr>,
             \<lparr>freqHz = Some (Fin (208000 / 107)), probability = Fin 1\<rparr>)"
    by (simp add: tracker_eval yin_eval)
  have n: "\<not> js_isFinite NaN" by simp
  from ema_first_sample [of "Fin 440" "Fin (1 / 4)" NaN
      "[Start 0, AnimationFrame (replicate 8 (Fin 0)) 1,
        AnimationFrame (map Fin [1, 0, 1, 0, 1, 0, 1, 0]) 2]"
      "\<lparr>cfg_threshold = Some (1 / 2), cfg_probabilityThreshold = Some (1 / 10),
        cfg_minFreq = Some 1000, cfg_maxFreq = Some 4000\<rparr>" 8000 0
      "\<lparr>tSec = Fin 2, freq = Some (Fin (208000 / 107)), prob = Fin 1\<rparr>"
      "\<lparr>freqHz = Some (Fin (208000 / 107)), probability = Fin 1\<rparr>"] h n
  show ?thesis by blast
qed

end
